theory Spec2Isabelle
  imports Main
begin

section \<open>JavaScript values and the browser's key-value store\<close>

text \<open>
  The values that travel through the client: a JSON field is undefined (absent), null
  or a string. \<open>to_String\<close> is the conversion JavaScript applies in a template literal
  and in \<^verbatim>\<open>localStorage.setItem\<close>.
\<close>

datatype jsval = Undefined | Null | Str string

fun to_String :: "jsval \<Rightarrow> string" where
  "to_String Undefined = ''undefined''"
| "to_String Null = ''null''"
| "to_String (Str s) = s"

text \<open>A body is JSON null or an object, kept as the list of its fields.\<close>

datatype jsdata = JNull | JObject "(string \<times> jsval) list"

definition get_prop :: "(string \<times> jsval) list \<Rightarrow> string \<Rightarrow> jsval" where
  "get_prop obj k = (case map_of obj k of None \<Rightarrow> Undefined | Some v \<Rightarrow> v)"

text \<open>
  \<^verbatim>\<open>localStorage\<close>: string keys to string values; \<^verbatim>\<open>getItem\<close> of a missing key
  is null (\<open>None\<close>).
\<close>

type_synonym storage = "string \<rightharpoonup> string"

definition getItem :: "storage \<Rightarrow> string \<Rightarrow> string option" where
  "getItem ls k = ls k"

definition setItem :: "storage \<Rightarrow> string \<Rightarrow> jsval \<Rightarrow> storage" where
  "setItem ls k v = ls(k \<mapsto> to_String v)"

definition removeItem :: "storage \<Rightarrow> string \<Rightarrow> storage" where
  "removeItem ls k = ls(k := None)"

text \<open>
  JavaScript truthiness of what \<^verbatim>\<open>getItem\<close> returns: null and the empty string are
  falsy, every other string is truthy. It is the test behind \<^verbatim>\<open>if (accessToken)\<close> and
  \<^verbatim>\<open>!!localStorage.getItem('accessToken')\<close>.
\<close>

definition truthy :: "string option \<Rightarrow> bool" where
  "truthy v = (case v of None \<Rightarrow> False | Some s \<Rightarrow> s \<noteq> [])"

text \<open>What \<^verbatim>\<open>getItem\<close> returns, as a value: a string or null.\<close>

definition nullable :: "string option \<Rightarrow> jsval" where
  "nullable v = (case v of None \<Rightarrow> Null | Some s \<Rightarrow> Str s)"

section \<open>Requests, responses and outcomes\<close>

text \<open>
  The request configuration of axios. \<open>retry\<close> is the custom property the response
  interceptor sets on the configuration; an unset property reads as false, and the
  property stays on the configuration when it is dispatched again.
\<close>

record request_config =
  http_method :: string
  url :: string
  headers :: "string \<rightharpoonup> string"
  payload :: jsdata
  retry :: bool

record response =
  status :: nat
  data :: jsdata

text \<open>\<^verbatim>\<open>error.config\<close> and \<^verbatim>\<open>error.response\<close>; a network failure has no response.\<close>

record axios_error =
  config :: request_config
  response :: "response option"

text \<open>What the remote end does with one dispatched request.\<close>

datatype reply = Reply response | NetworkError

text \<open>
  A promise settles as resolved or rejected, or stays pending for ever: no timeout is
  configured, so a request that is never answered stalls.
\<close>

datatype outcome = Resolved response | Rejected axios_error | Stalled

text \<open>The default \<^verbatim>\<open>validateStatus\<close> of axios: a 2xx status resolves, any other rejects.\<close>

definition validateStatus :: "nat \<Rightarrow> bool" where
  "validateStatus s = (200 \<le> s \<and> s < 300)"

definition settle :: "request_config \<Rightarrow> reply \<Rightarrow> axios_error + response" where
  "settle cfg r =
     (case r of
        NetworkError \<Rightarrow> Inl \<lparr>config = cfg, response = None\<rparr>
      | Reply resp \<Rightarrow>
          if validateStatus (status resp) then Inr resp
          else Inl \<lparr>config = cfg, response = Some resp\<rparr>)"

section \<open>The page: store, location, session flag, network trace\<close>

text \<open>
  One entry of the network trace: the request as it left the client, and the access-token
  entry of the store at that moment.
\<close>

record dispatch =
  stored_token :: "string option"
  request :: request_config

record world =
  localStorage :: storage
  location_href :: string
  isLoggedIn :: bool
  dispatched :: "dispatch list"

definition record_dispatch :: "world \<Rightarrow> request_config \<Rightarrow> world" where
  "record_dispatch w cfg =
     w\<lparr>dispatched := dispatched w @
          [\<lparr>stored_token = getItem (localStorage w) ''accessToken'', request = cfg\<rparr>]\<rparr>"

section \<open>axiosInstance.js\<close>

text \<open>The request interceptor (lines 24-31).\<close>

definition request_interceptor :: "storage \<Rightarrow> request_config \<Rightarrow> request_config" where
  "request_interceptor ls cfg =
     (let accessToken = getItem ls ''accessToken''
      in if truthy accessToken
         then cfg\<lparr>headers := (headers cfg)
                (''Authorization'' \<mapsto> ''Bearer '' @ to_String (nullable accessToken))\<rparr>
         else cfg)"

text \<open>\<^verbatim>\<open>error.response && error.response.status === 401\<close> (line 51).\<close>

definition is_unauthorized :: "axios_error \<Rightarrow> bool" where
  "is_unauthorized error = (case response error of None \<Rightarrow> False | Some r \<Rightarrow> status r = 401)"

text \<open>
  \<^verbatim>\<open>axiosInstance.post('/token/refresh/', { refresh: refreshToken })\<close> (lines 57-59),
  with the instance's default header (lines 14-19).
\<close>

definition refresh_request :: "string option \<Rightarrow> request_config" where
  "refresh_request refreshToken =
     \<lparr>http_method = ''post'', url = ''/token/refresh/'',
      headers = [''Content-Type'' \<mapsto> ''application/json''],
      payload = JObject [(''refresh'', nullable refreshToken)],
      retry = False\<rparr>"

text \<open>The \<^verbatim>\<open>catch (refreshError)\<close> block (lines 68-73).\<close>

definition refresh_failed :: "world \<Rightarrow> world" where
  "refresh_failed w =
     w\<lparr>localStorage := removeItem (removeItem (localStorage w) ''accessToken'') ''refreshToken'',
       location_href := ''/login''\<rparr>"

text \<open>Lines 62-63: store the new access token.\<close>

definition store_access :: "world \<Rightarrow> jsval \<Rightarrow> world" where
  "store_access w newAccessToken =
     w\<lparr>localStorage := setItem (localStorage w) ''accessToken'' newAccessToken\<rparr>"

text \<open>Line 66: put the new token into the original request's header.\<close>

definition reauthorize :: "request_config \<Rightarrow> jsval \<Rightarrow> request_config" where
  "reauthorize originalRequest newAccessToken =
     originalRequest\<lparr>headers := (headers originalRequest)
        (''Authorization'' \<mapsto> ''Bearer '' @ to_String newAccessToken)\<rparr>"

section \<open>AuthProvider.jsx, Header.jsx and the route guards\<close>

text \<open>
  The initial value of the \<open>isLoggedIn\<close> state (AuthProvider.jsx, lines 21-26); the
  argument says whether \<^verbatim>\<open>window\<close> is defined, which it is in a browser.
\<close>

definition AuthProvider_initial :: "bool \<Rightarrow> storage \<Rightarrow> bool" where
  "AuthProvider_initial window_defined ls =
     (if window_defined then truthy (getItem ls ''accessToken'') else False)"

text \<open>
  Mounting the provider in a browser. A page load does this: assigning
  \<^verbatim>\<open>window.location.href\<close> loads the new page, whose provider starts from the store.
\<close>

definition AuthProvider_mount :: "world \<Rightarrow> world" where
  "AuthProvider_mount w = w\<lparr>isLoggedIn := AuthProvider_initial True (localStorage w)\<rparr>"

text \<open>The listener of the storage event (lines 30-32).\<close>

definition handleStorageChange :: "world \<Rightarrow> world" where
  "handleStorageChange w = w\<lparr>isLoggedIn := truthy (getItem (localStorage w) ''accessToken'')\<rparr>"

text \<open>The state setter that the context hands out (line 39).\<close>

definition setIsLoggedIn :: "bool \<Rightarrow> world \<Rightarrow> world" where
  "setIsLoggedIn b w = w\<lparr>isLoggedIn := b\<rparr>"

text \<open>Client-side navigation of the router: the location changes, the page stays.\<close>

definition navigate :: "string \<Rightarrow> world \<Rightarrow> world" where
  "navigate path w = w\<lparr>location_href := path\<rparr>"

text \<open>Header.jsx, lines 15-20.\<close>

definition handleLogout :: "world \<Rightarrow> world" where
  "handleLogout w =
     (let w1 = w\<lparr>localStorage := removeItem (localStorage w) ''accessToken''\<rparr>;
          w2 = w1\<lparr>localStorage := removeItem (localStorage w1) ''refreshToken''\<rparr>;
          w3 = setIsLoggedIn False w2
      in navigate ''/login'' w3)"

text \<open>What a guard renders: its children, or a \<^verbatim>\<open>Navigate\<close> element.\<close>

datatype 'a element = Children 'a | Navigate string

text \<open>PublicRoute.jsx, lines 12-16. The guard reads \<open>isLoggedIn\<close> from the context.\<close>

definition PublicRoute :: "world \<Rightarrow> 'a \<Rightarrow> 'a element" where
  "PublicRoute w children = (if \<not> isLoggedIn w then Children children else Navigate ''/dashboard'')"

text \<open>PrivateRoute.jsx.\<close>

definition PrivateRoute :: "world \<Rightarrow> 'a \<Rightarrow> 'a element" where
  "PrivateRoute w children = (if isLoggedIn w then Children children else Navigate ''/login'')"

section \<open>The client\<close>

text \<open>
  \<open>axiosInstance rs w cfg\<close> is one call \<^verbatim>\<open>axiosInstance(cfg)\<close> on the page \<open>w\<close>: the
  request interceptor, the dispatch, and the response interceptor (lines 43-78). \<open>rs\<close> are the
  replies the remote end gives to the requests dispatched from here on, in order; a
  dispatch with no reply left stays pending. The result is the outcome of the promise,
  the page afterwards and the replies not consumed.

  The refresh call and the retry are calls of the same instance, so they are recursive
  calls of \<open>axiosInstance\<close>. Reading \<^verbatim>\<open>response.data.access\<close> of a null body throws inside the
  \<^verbatim>\<open>try\<close>, which lands in the \<^verbatim>\<open>catch\<close> block. After the \<^verbatim>\<open>catch\<close> block control
  reaches line 76, which rejects with the original error; its configuration is the
  object that line 52 marked.
\<close>

function axiosInstance :: "reply list \<Rightarrow> world \<Rightarrow> request_config \<Rightarrow> outcome \<times> world \<times> reply list" where
  "axiosInstance [] w cfg =
     (Stalled, record_dispatch w (request_interceptor (localStorage w) cfg), [])"
| "axiosInstance (r # rs) w cfg =
     (let sent = request_interceptor (localStorage w) cfg;
          w1 = record_dispatch w sent
      in case settle sent r of
           Inr resp \<Rightarrow> (Resolved resp, w1, rs)
         | Inl error \<Rightarrow>
             if is_unauthorized error \<and> \<not> retry (config error) then
               (let originalRequest = (config error)\<lparr>retry := True\<rparr>;
                    refreshToken = getItem (localStorage w1) ''refreshToken''
                in case axiosInstance rs w1 (refresh_request refreshToken) of
                     (Resolved resp, w2, rs2) \<Rightarrow>
                       (case data resp of
                          JNull \<Rightarrow>
                            (Rejected (error\<lparr>config := originalRequest\<rparr>), refresh_failed w2, rs2)
                        | JObject obj \<Rightarrow>
                            (let newAccessToken = get_prop obj ''access''
                             in axiosInstance rs2 (store_access w2 newAccessToken)
                                  (reauthorize originalRequest newAccessToken)))
                   | (Rejected refreshError, w2, rs2) \<Rightarrow>
                       (Rejected (error\<lparr>config := originalRequest\<rparr>), refresh_failed w2, rs2)
                   | (Stalled, w2, rs2) \<Rightarrow> (Stalled, w2, rs2))
             else (Rejected error, w1, rs))"
  by pat_completeness auto

text \<open>
  The page of the scenarios: tokens \<open>A1\<close> and \<open>R1\<close> and a username in the store, the
  provider mounted, nothing sent yet; and the request for the history.
\<close>

definition page_A1_R1 :: world where
  "page_A1_R1 =
     \<lparr>localStorage = [''accessToken'' \<mapsto> ''A1'', ''refreshToken'' \<mapsto> ''R1'', ''username'' \<mapsto> ''sam''],
      location_href = ''/dashboard'', isLoggedIn = True, dispatched = []\<rparr>"

definition get_history :: request_config where
  "get_history =
     \<lparr>http_method = ''get'', url = ''/history/'', headers = [''Content-Type'' \<mapsto> ''application/json''],
      payload = JNull, retry = False\<rparr>"

definition unauthorized :: reply where
  "unauthorized = Reply \<lparr>status = 401, data = JObject [(''detail'', Str ''expired'')]\<rparr>"

definition new_access_A2 :: reply where
  "new_access_A2 = Reply \<lparr>status = 200, data = JObject [(''access'', Str ''A2'')]\<rparr>"

definition server_error :: reply where
  "server_error = Reply \<lparr>status = 500, data = JNull\<rparr>"

definition history_payload :: reply where
  "history_payload = Reply \<lparr>status = 200, data = JObject [(''entries'', Str ''none'')]\<rparr>"

text \<open>The requests of a trace, as method, path and authorization header.\<close>

definition summary :: "dispatch \<Rightarrow> string \<times> string \<times> string option" where
  "summary d = (http_method (request d), url (request d), headers (request d) ''Authorization'')"

text \<open>
  Shorthands for one call on the page \<open>w\<close>: the request as it leaves the client, the page
  once it has left, and the refresh call made from that page.
\<close>

abbreviation outgoing :: "world \<Rightarrow> request_config \<Rightarrow> request_config" where
  "outgoing w cfg \<equiv> request_interceptor (localStorage w) cfg"

abbreviation after_dispatch :: "world \<Rightarrow> request_config \<Rightarrow> world" where
  "after_dispatch w cfg \<equiv> record_dispatch w (outgoing w cfg)"

abbreviation refresh_call :: "world \<Rightarrow> request_config" where
  "refresh_call w \<equiv> refresh_request (getItem (localStorage w) ''refreshToken'')"

section \<open>Termination of the client\<close>

lemma axiosInstance_dom_remaining:
  "axiosInstance_dom (rs, w, cfg) \<Longrightarrow> length (snd (snd (axiosInstance rs w cfg))) \<le> length rs"
proof (induction rs w cfg rule: axiosInstance.pinduct)
  case (1 w cfg)
  then show ?case by (simp add: axiosInstance.psimps)
next
  case (2 r rs w cfg)
  define sent where "sent = request_interceptor (localStorage w) cfg"
  define w1 where "w1 = record_dispatch w sent"
  show ?case
  proof (cases "settle sent r")
    case (Inr resp)
    with 2(1) show ?thesis by (simp add: axiosInstance.psimps sent_def)
  next
    case (Inl error)
    show ?thesis
    proof (cases "is_unauthorized error \<and> \<not> retry (config error)")
      case False
      with Inl 2(1) show ?thesis by (auto simp add: axiosInstance.psimps sent_def)
    next
      case True
      define rq where "rq = refresh_request (getItem (localStorage w1) ''refreshToken'')"
      have ih1: "length (snd (snd (axiosInstance rs w1 rq))) \<le> length rs"
        using 2(2) [OF sent_def w1_def Inl True refl refl] by (simp add: rq_def)
      obtain out w2 rs2 where sub: "axiosInstance rs w1 rq = (out, w2, rs2)"
        by (cases "axiosInstance rs w1 rq") auto
      with ih1 have le: "length rs2 \<le> length rs" by simp
      show ?thesis
      proof (cases out)
        case (Resolved resp)
        show ?thesis
        proof (cases "data resp")
          case JNull
          with Resolved sub le Inl True 2(1) show ?thesis
            by (simp add: axiosInstance.psimps sent_def [symmetric] w1_def [symmetric] rq_def [symmetric])
        next
          case (JObject obj)
          have "length (snd (snd (axiosInstance rs2 (store_access w2 (get_prop obj ''access''))
                  (reauthorize ((config error)\<lparr>retry := True\<rparr>) (get_prop obj ''access''))))) \<le> length rs2"
            using 2(3) [OF sent_def w1_def Inl True refl refl _ refl _ JObject refl]
              sub Resolved by (simp add: rq_def)
          with JObject Resolved sub le Inl True 2(1) show ?thesis
            by (simp add: axiosInstance.psimps sent_def [symmetric] w1_def [symmetric] rq_def [symmetric]
                  Let_def)
        qed
      next
        case (Rejected e)
        with sub le Inl True 2(1) show ?thesis
          by (simp add: axiosInstance.psimps sent_def [symmetric] w1_def [symmetric] rq_def [symmetric])
      next
        case Stalled
        with sub le Inl True 2(1) show ?thesis
          by (simp add: axiosInstance.psimps sent_def [symmetric] w1_def [symmetric] rq_def [symmetric])
      qed
    qed
  qed
qed

termination axiosInstance
proof (relation "measure (\<lambda>(rs, w, cfg). length rs)", goal_cases)
  case 1
  then show ?case by simp
next
  case 2
  then show ?case by simp
next
  case (3 r rs w cfg sent w1 error originalRequest refreshToken out rest resp w2 rs2 obj newAccessToken)
  from 3 have "axiosInstance rs w1 (refresh_request refreshToken) = (Resolved resp, w2, rs2)"
    by (simp add: sym)
  then have "rs2 = snd (snd (axiosInstance rs w1 (refresh_request refreshToken)))"
    by simp
  moreover from 3 have "axiosInstance_dom (rs, w1, refresh_request refreshToken)"
    by simp
  ultimately have "length rs2 \<le> length rs"
    using axiosInstance_dom_remaining by blast
  then show ?case by simp
qed

section \<open>One step of the client\<close>

declare axiosInstance.simps(2) [simp del]

lemma request_interceptor_fields [simp]:
  "retry (request_interceptor ls cfg) = retry cfg"
  "url (request_interceptor ls cfg) = url cfg"
  "http_method (request_interceptor ls cfg) = http_method cfg"
  "payload (request_interceptor ls cfg) = payload cfg"
  by (simp_all add: request_interceptor_def Let_def)

lemma record_dispatch_fields [simp]:
  "localStorage (record_dispatch w c) = localStorage w"
  "location_href (record_dispatch w c) = location_href w"
  "isLoggedIn (record_dispatch w c) = isLoggedIn w"
  "dispatched (record_dispatch w c) =
     dispatched w @ [\<lparr>stored_token = getItem (localStorage w) ''accessToken'', request = c\<rparr>]"
  by (simp_all add: record_dispatch_def)

lemma settle_Inl_config: "settle c r = Inl error \<Longrightarrow> config error = c"
  by (auto simp: settle_def split: reply.splits if_splits)

lemma settle_Reply:
  "settle c (Reply resp) =
     (if validateStatus (status resp) then Inr resp else Inl \<lparr>config = c, response = Some resp\<rparr>)"
  by (simp add: settle_def)

lemma settle_NetworkError: "settle c NetworkError = Inl \<lparr>config = c, response = None\<rparr>"
  by (simp add: settle_def)

lemma axiosInstance_resolved:
  "settle (outgoing w cfg) r = Inr resp \<Longrightarrow>
   axiosInstance (r # rs) w cfg = (Resolved resp, after_dispatch w cfg, rs)"
  by (simp add: axiosInstance.simps(2))

lemma axiosInstance_passed:
  "settle (outgoing w cfg) r = Inl error \<Longrightarrow> \<not> (is_unauthorized error \<and> \<not> retry cfg) \<Longrightarrow>
   axiosInstance (r # rs) w cfg = (Rejected error, after_dispatch w cfg, rs)"
  by (frule settle_Inl_config) (auto simp add: axiosInstance.simps(2))

lemma axiosInstance_recover:
  "settle (outgoing w cfg) r = Inl error \<Longrightarrow> is_unauthorized error \<Longrightarrow> \<not> retry cfg \<Longrightarrow>
   axiosInstance (r # rs) w cfg =
     (case axiosInstance rs (after_dispatch w cfg) (refresh_call w) of
        (Resolved resp, w2, rs2) \<Rightarrow>
          (case data resp of
             JNull \<Rightarrow>
               (Rejected (error\<lparr>config := (outgoing w cfg)\<lparr>retry := True\<rparr>\<rparr>), refresh_failed w2, rs2)
           | JObject obj \<Rightarrow>
               axiosInstance rs2 (store_access w2 (get_prop obj ''access''))
                 (reauthorize ((outgoing w cfg)\<lparr>retry := True\<rparr>) (get_prop obj ''access'')))
      | (Rejected refreshError, w2, rs2) \<Rightarrow>
          (Rejected (error\<lparr>config := (outgoing w cfg)\<lparr>retry := True\<rparr>\<rparr>), refresh_failed w2, rs2)
      | (Stalled, w2, rs2) \<Rightarrow> (Stalled, w2, rs2))"
  by (frule settle_Inl_config)
    (simp add: axiosInstance.simps(2) Let_def split: prod.split outcome.split jsdata.split)

lemma axiosInstance_outcome_induct
  [case_names pending resolved passed refresh_pending refresh_rejected refresh_null retried]:
  assumes pending: "\<And>w cfg. P [] w cfg (Stalled, after_dispatch w cfg, [])"
    and resolved: "\<And>r rs w cfg resp. settle (outgoing w cfg) r = Inr resp \<Longrightarrow>
          P (r # rs) w cfg (Resolved resp, after_dispatch w cfg, rs)"
    and passed: "\<And>r rs w cfg error. settle (outgoing w cfg) r = Inl error \<Longrightarrow>
          \<not> (is_unauthorized error \<and> \<not> retry cfg) \<Longrightarrow>
          P (r # rs) w cfg (Rejected error, after_dispatch w cfg, rs)"
    and refresh_pending: "\<And>r rs w cfg error w2 rs2.
          settle (outgoing w cfg) r = Inl error \<Longrightarrow> is_unauthorized error \<Longrightarrow> \<not> retry cfg \<Longrightarrow>
          axiosInstance rs (after_dispatch w cfg) (refresh_call w) = (Stalled, w2, rs2) \<Longrightarrow>
          P rs (after_dispatch w cfg) (refresh_call w) (Stalled, w2, rs2) \<Longrightarrow>
          P (r # rs) w cfg (Stalled, w2, rs2)"
    and refresh_rejected: "\<And>r rs w cfg error refreshError w2 rs2.
          settle (outgoing w cfg) r = Inl error \<Longrightarrow> is_unauthorized error \<Longrightarrow> \<not> retry cfg \<Longrightarrow>
          axiosInstance rs (after_dispatch w cfg) (refresh_call w) = (Rejected refreshError, w2, rs2) \<Longrightarrow>
          P rs (after_dispatch w cfg) (refresh_call w) (Rejected refreshError, w2, rs2) \<Longrightarrow>
          P (r # rs) w cfg
            (Rejected (error\<lparr>config := (outgoing w cfg)\<lparr>retry := True\<rparr>\<rparr>), refresh_failed w2, rs2)"
    and refresh_null: "\<And>r rs w cfg error resp w2 rs2.
          settle (outgoing w cfg) r = Inl error \<Longrightarrow> is_unauthorized error \<Longrightarrow> \<not> retry cfg \<Longrightarrow>
          axiosInstance rs (after_dispatch w cfg) (refresh_call w) = (Resolved resp, w2, rs2) \<Longrightarrow>
          data resp = JNull \<Longrightarrow>
          P rs (after_dispatch w cfg) (refresh_call w) (Resolved resp, w2, rs2) \<Longrightarrow>
          P (r # rs) w cfg
            (Rejected (error\<lparr>config := (outgoing w cfg)\<lparr>retry := True\<rparr>\<rparr>), refresh_failed w2, rs2)"
    and retried: "\<And>r rs w cfg error resp w2 rs2 obj.
          settle (outgoing w cfg) r = Inl error \<Longrightarrow> is_unauthorized error \<Longrightarrow> \<not> retry cfg \<Longrightarrow>
          axiosInstance rs (after_dispatch w cfg) (refresh_call w) = (Resolved resp, w2, rs2) \<Longrightarrow>
          data resp = JObject obj \<Longrightarrow>
          P rs (after_dispatch w cfg) (refresh_call w) (Resolved resp, w2, rs2) \<Longrightarrow>
          P rs2 (store_access w2 (get_prop obj ''access''))
            (reauthorize ((outgoing w cfg)\<lparr>retry := True\<rparr>) (get_prop obj ''access''))
            (axiosInstance rs2 (store_access w2 (get_prop obj ''access''))
               (reauthorize ((outgoing w cfg)\<lparr>retry := True\<rparr>) (get_prop obj ''access''))) \<Longrightarrow>
          P (r # rs) w cfg
            (axiosInstance rs2 (store_access w2 (get_prop obj ''access''))
               (reauthorize ((outgoing w cfg)\<lparr>retry := True\<rparr>) (get_prop obj ''access'')))"
  shows "P rs w cfg (axiosInstance rs w cfg)"
proof (induction rs w cfg rule: axiosInstance.induct)
  case (1 w cfg)
  show ?case by (simp add: pending)
next
  case (2 r rs w cfg)
  show ?case
  proof (cases "settle (outgoing w cfg) r")
    case (Inr resp)
    then show ?thesis by (simp add: axiosInstance_resolved resolved)
  next
    case (Inl error)
    note cfg = settle_Inl_config [OF Inl]
    show ?thesis
    proof (cases "is_unauthorized error \<and> \<not> retry cfg")
      case False
      with Inl show ?thesis by (simp add: axiosInstance_passed passed)
    next
      case True
      then have un: "is_unauthorized error" and nr: "\<not> retry cfg" by simp_all
      from True cfg have guard: "is_unauthorized error \<and> \<not> retry (config error)" by simp
      have ih1: "P rs (after_dispatch w cfg) (refresh_call w)
                   (axiosInstance rs (after_dispatch w cfg) (refresh_call w))"
        using "2.IH"(1) [OF refl refl Inl guard refl refl] by simp
      obtain out w2 rs2 where sub: "axiosInstance rs (after_dispatch w cfg) (refresh_call w) = (out, w2, rs2)"
        by (cases "axiosInstance rs (after_dispatch w cfg) (refresh_call w)") auto
      show ?thesis
      proof (cases out)
        case Stalled
        with sub ih1 Inl un nr show ?thesis
          by (simp add: axiosInstance_recover refresh_pending)
      next
        case (Rejected refreshError)
        with sub ih1 Inl un nr show ?thesis
          by (simp add: axiosInstance_recover refresh_rejected)
      next
        case (Resolved resp)
        show ?thesis
        proof (cases "data resp")
          case JNull
          with Resolved sub ih1 Inl un nr show ?thesis
            by (simp add: axiosInstance_recover refresh_null)
        next
          case (JObject obj)
          have ih2: "P rs2 (store_access w2 (get_prop obj ''access''))
              (reauthorize ((outgoing w cfg)\<lparr>retry := True\<rparr>) (get_prop obj ''access''))
              (axiosInstance rs2 (store_access w2 (get_prop obj ''access''))
                 (reauthorize ((outgoing w cfg)\<lparr>retry := True\<rparr>) (get_prop obj ''access'')))"
            using "2.IH"(2) [OF refl refl Inl guard refl refl _ refl _ JObject refl]
              sub Resolved cfg by simp
          from sub Resolved ih1
          have "P rs (after_dispatch w cfg) (refresh_call w) (Resolved resp, w2, rs2)" by simp
          from retried [OF Inl un nr sub [unfolded Resolved] JObject this ih2]
          show ?thesis using JObject Resolved sub Inl un nr
            by (simp add: axiosInstance_recover)
        qed
      qed
    qed
  qed
qed

section \<open>Invariants of a call\<close>

lemma axiosInstance_keeps_flag: "isLoggedIn (fst (snd (axiosInstance rs w cfg))) = isLoggedIn w"
  by (rule axiosInstance_outcome_induct [where P = "\<lambda>rs w cfg res. isLoggedIn (fst (snd res)) = isLoggedIn w"])
    (simp_all add: refresh_failed_def store_access_def)

lemma axiosInstance_resolved_frame:
  "(\<forall>resp. fst (axiosInstance rs w cfg) = Resolved resp \<longrightarrow>
      (\<forall>k. k \<noteq> ''accessToken'' \<longrightarrow> localStorage (fst (snd (axiosInstance rs w cfg))) k = localStorage w k) \<and>
      location_href (fst (snd (axiosInstance rs w cfg))) = location_href w)"
  by (rule axiosInstance_outcome_induct [where P = "\<lambda>rs w cfg res. \<forall>resp. fst res = Resolved resp \<longrightarrow>
      (\<forall>k. k \<noteq> ''accessToken'' \<longrightarrow> localStorage (fst (snd res)) k = localStorage w k) \<and>
      location_href (fst (snd res)) = location_href w"])
    (simp_all add: store_access_def setItem_def)

lemma request_interceptor_bearer:
  "getItem ls ''accessToken'' = Some t \<Longrightarrow> t \<noteq> [] \<Longrightarrow>
   headers (request_interceptor ls cfg) ''Authorization'' = Some (''Bearer '' @ t)"
  by (simp add: request_interceptor_def truthy_def nullable_def)

lemma axiosInstance_trace:
  "\<exists>new. dispatched (fst (snd (axiosInstance rs w cfg))) = dispatched w @ new \<and>
     (\<forall>d\<in>set new. \<forall>t. stored_token d = Some t \<longrightarrow> t \<noteq> [] \<longrightarrow>
        headers (request d) ''Authorization'' = Some (''Bearer '' @ t))"
proof (rule axiosInstance_outcome_induct [where P = "\<lambda>rs w cfg res.
    \<exists>new. dispatched (fst (snd res)) = dispatched w @ new \<and>
     (\<forall>d\<in>set new. \<forall>t. stored_token d = Some t \<longrightarrow> t \<noteq> [] \<longrightarrow>
        headers (request d) ''Authorization'' = Some (''Bearer '' @ t))"], goal_cases)
  case (1 w cfg)
  then show ?case by (simp add: request_interceptor_bearer)
next
  case (2 r rs w cfg resp)
  then show ?case by (simp add: request_interceptor_bearer)
next
  case (3 r rs w cfg error)
  then show ?case by (simp add: request_interceptor_bearer)
next
  case (4 r rs w cfg error w2 rs2)
  then show ?case by (auto simp: request_interceptor_bearer)
next
  case (5 r rs w cfg error refreshError w2 rs2)
  then show ?case by (auto simp: request_interceptor_bearer refresh_failed_def)
next
  case (6 r rs w cfg error resp w2 rs2)
  then show ?case by (auto simp: request_interceptor_bearer refresh_failed_def)
next
  case (7 r rs w cfg error resp w2 rs2 obj)
  then show ?case by (auto simp: request_interceptor_bearer store_access_def)
qed

lemma refresh_request_fields [simp]:
  "retry (refresh_request t) = False" "url (refresh_request t) = ''/token/refresh/''"
  by (simp_all add: refresh_request_def)

lemma request_interceptor_without_token:
  "getItem ls ''accessToken'' = None \<or> getItem ls ''accessToken'' = Some [] \<Longrightarrow>
   request_interceptor ls cfg = cfg"
  by (auto simp: request_interceptor_def truthy_def Let_def)

text \<open>
  Unfolding a call on concrete replies, and the scenario's constants.
\<close>

lemmas client_defs =
  axiosInstance.simps(2) Let_def settle_def validateStatus_def is_unauthorized_def request_interceptor_def
  getItem_def setItem_def removeItem_def truthy_def nullable_def record_dispatch_def
  refresh_request_def
  refresh_failed_def store_access_def reauthorize_def get_prop_def

lemmas scenario_defs =
  page_A1_R1_def get_history_def unauthorized_def new_access_A2_def server_error_def
  history_payload_def summary_def

section \<open>The request interceptor\<close>

text \<open>
  C6. Every request that a call dispatches while the store holds an access token leaves
  with that token as bearer credential in its \<open>Authorization\<close> header: the original
  request, the refresh call and the retry alike. The store holds a token when the entry
  is a non-empty string, which is the test of line 27; an empty entry counts as none
  (\<open>request_interceptor_without_token\<close>). \<open>stored_token d\<close> is the entry at the moment
  \<open>d\<close> was dispatched.
\<close>

theorem dispatched_requests_carry_token:
  assumes "d \<in> set (drop (length (dispatched w)) (dispatched (fst (snd (axiosInstance rs w cfg)))))"
    and "stored_token d = Some t" and "t \<noteq> []"
  shows "headers (request d) ''Authorization'' = Some (''Bearer '' @ t)"
proof -
  obtain new where tr: "dispatched (fst (snd (axiosInstance rs w cfg))) = dispatched w @ new"
    and ok: "\<forall>d\<in>set new. \<forall>t. stored_token d = Some t \<longrightarrow> t \<noteq> [] \<longrightarrow>
        headers (request d) ''Authorization'' = Some (''Bearer '' @ t)"
    using axiosInstance_trace [of rs w cfg] by blast
  from assms(1) tr have "d \<in> set new" by simp
  with ok assms(2,3) show ?thesis by blast
qed

theorem dispatched_requests_carry_token_witness:
  "dispatched (fst (snd (axiosInstance [unauthorized, new_access_A2, history_payload] page_A1_R1 get_history))) ! 2
     \<in> set (drop (length (dispatched page_A1_R1))
          (dispatched (fst (snd (axiosInstance [unauthorized, new_access_A2, history_payload]
             page_A1_R1 get_history))))) \<and>
   stored_token (dispatched (fst (snd (axiosInstance [unauthorized, new_access_A2, history_payload]
      page_A1_R1 get_history))) ! 2) = Some ''A2'' \<and>
   ''A2'' \<noteq> [] \<and>
   headers (request (dispatched (fst (snd (axiosInstance [unauthorized, new_access_A2, history_payload]
      page_A1_R1 get_history))) ! 2)) ''Authorization'' = Some ''Bearer A2''"
proof -
  let ?D = "dispatched (fst (snd (axiosInstance [unauthorized, new_access_A2, history_payload]
      page_A1_R1 get_history)))"
  have len: "length ?D = 3" and tok: "stored_token (?D ! 2) = Some ''A2''"
    and start: "dispatched page_A1_R1 = []"
    by (simp_all add: client_defs scenario_defs)
  have mem: "?D ! 2 \<in> set (drop (length (dispatched page_A1_R1)) ?D)"
    using len by (simp add: start)
  have ne: "''A2'' \<noteq> []" by simp
  from dispatched_requests_carry_token [OF mem tok ne] mem tok show ?thesis by simp
qed

section \<open>The response interceptor\<close>

text \<open>
  C7. A reply that is a failure other than status 401 (any other non-2xx status, or no
  response at all) is passed through: the promise is rejected with that failure, the
  request itself is the only one dispatched (no refresh call, no retry), the replies that
  follow are not consumed, and the store and the location are as they were.
\<close>

theorem other_failure_passes_through:
  assumes "r = NetworkError \<or>
           (\<exists>resp. r = Reply resp \<and> \<not> validateStatus (status resp) \<and> status resp \<noteq> 401)"
  shows "axiosInstance (r # rs) w cfg =
           (Rejected \<lparr>config = outgoing w cfg,
                      response = (case r of Reply resp \<Rightarrow> Some resp | NetworkError \<Rightarrow> None)\<rparr>,
            after_dispatch w cfg, rs) \<and>
         localStorage (after_dispatch w cfg) = localStorage w \<and>
         location_href (after_dispatch w cfg) = location_href w \<and>
         dispatched (after_dispatch w cfg) =
           dispatched w @
             [\<lparr>stored_token = getItem (localStorage w) ''accessToken'', request = outgoing w cfg\<rparr>]"
  using assms
  by (auto simp add: axiosInstance_passed settle_Reply settle_NetworkError is_unauthorized_def)

theorem other_failure_passes_through_witness:
  "(server_error = NetworkError \<or>
      (\<exists>resp. server_error = Reply resp \<and> \<not> validateStatus (status resp) \<and> status resp \<noteq> 401)) \<and>
   fst (axiosInstance [server_error, history_payload] page_A1_R1 get_history) =
     Rejected \<lparr>config = outgoing page_A1_R1 get_history,
               response = Some \<lparr>status = 500, data = JNull\<rparr>\<rparr> \<and>
   snd (snd (axiosInstance [server_error, history_payload] page_A1_R1 get_history)) = [history_payload] \<and>
   localStorage (fst (snd (axiosInstance [server_error, history_payload] page_A1_R1 get_history))) =
     localStorage page_A1_R1 \<and>
   map summary (dispatched (fst (snd (axiosInstance [server_error, history_payload] page_A1_R1 get_history)))) =
     [(''get'', ''/history/'', Some ''Bearer A1'')]"
  using other_failure_passes_through [where r = server_error and rs = "[history_payload]"
      and w = page_A1_R1 and cfg = get_history]
  by (simp add: server_error_def validateStatus_def get_history_def page_A1_R1_def summary_def
        request_interceptor_def getItem_def truthy_def nullable_def)

text \<open>
  C1. A request that carries the retry mark and is answered with status 401 is not
  recovered again: the promise is rejected with that very failure, the only request
  dispatched is the request itself (no refresh call, no re-dispatch), no further reply
  is consumed, and the store and the location are as they were.
\<close>

theorem retried_request_fails_once:
  assumes "retry cfg" and "status resp = 401"
  shows "axiosInstance (Reply resp # rs) w cfg =
           (Rejected \<lparr>config = outgoing w cfg, response = Some resp\<rparr>, after_dispatch w cfg, rs) \<and>
         localStorage (after_dispatch w cfg) = localStorage w \<and>
         location_href (after_dispatch w cfg) = location_href w \<and>
         dispatched (after_dispatch w cfg) =
           dispatched w @
             [\<lparr>stored_token = getItem (localStorage w) ''accessToken'', request = outgoing w cfg\<rparr>]"
  using assms by (simp add: axiosInstance_passed settle_Reply validateStatus_def)

theorem retried_request_fails_once_witness:
  "retry (get_history\<lparr>retry := True\<rparr>) \<and> status \<lparr>status = 401, data = JNull\<rparr> = 401 \<and>
   fst (axiosInstance [Reply \<lparr>status = 401, data = JNull\<rparr>, history_payload] page_A1_R1
          (get_history\<lparr>retry := True\<rparr>)) =
     Rejected \<lparr>config = outgoing page_A1_R1 (get_history\<lparr>retry := True\<rparr>),
               response = Some \<lparr>status = 401, data = JNull\<rparr>\<rparr> \<and>
   snd (snd (axiosInstance [Reply \<lparr>status = 401, data = JNull\<rparr>, history_payload] page_A1_R1
          (get_history\<lparr>retry := True\<rparr>))) = [history_payload] \<and>
   map summary (dispatched (fst (snd (axiosInstance [Reply \<lparr>status = 401, data = JNull\<rparr>, history_payload]
          page_A1_R1 (get_history\<lparr>retry := True\<rparr>))))) =
     [(''get'', ''/history/'', Some ''Bearer A1'')]"
  using retried_request_fails_once [where cfg = "get_history\<lparr>retry := True\<rparr>"
      and resp = "\<lparr>status = 401, data = JNull\<rparr>" and rs = "[history_payload]" and w = page_A1_R1]
  by (simp add: get_history_def page_A1_R1_def summary_def request_interceptor_def getItem_def
        truthy_def nullable_def)

text \<open>
  C3. A request without the retry mark is answered 401, and the refresh call is answered
  with a 2xx status and a body whose \<open>access\<close> field is the string \<open>newToken\<close>. Then
  the store holds \<open>newToken\<close> as access token and is otherwise unchanged; exactly three
  requests were dispatched: the request, the refresh call, and one retry, which is the
  request with \<open>Bearer newToken\<close> in its header and the retry mark; and the promise settles
  as the reply \<open>r3\<close> to the retry settles, success or failure, with nothing consumed
  after it. The witness is the scenario with tokens \<open>A1\<close>, \<open>R1\<close> and the new token
  \<open>A2\<close>.
\<close>

theorem refresh_success_retries_once:
  assumes "\<not> retry cfg" and "status denied = 401"
    and "validateStatus (status refreshed)" and "data refreshed = JObject obj"
    and "get_prop obj ''access'' = Str newToken"
  shows "let retried = (outgoing w cfg)
                \<lparr>headers := (headers (outgoing w cfg))(''Authorization'' \<mapsto> ''Bearer '' @ newToken),
                 retry := True\<rparr>;
             result = axiosInstance (Reply denied # Reply refreshed # r3 # rs) w cfg
         in fst result = (case settle retried r3 of Inr resp \<Rightarrow> Resolved resp | Inl e \<Rightarrow> Rejected e) \<and>
            snd (snd result) = rs \<and>
            localStorage (fst (snd result)) = (localStorage w)(''accessToken'' \<mapsto> newToken) \<and>
            location_href (fst (snd result)) = location_href w \<and>
            dispatched (fst (snd result)) =
              dispatched w @
                [\<lparr>stored_token = getItem (localStorage w) ''accessToken'', request = outgoing w cfg\<rparr>,
                 \<lparr>stored_token = getItem (localStorage w) ''accessToken'',
                  request = outgoing w (refresh_call w)\<rparr>,
                 \<lparr>stored_token = Some newToken, request = retried\<rparr>]"
proof -
  let ?sent = "outgoing w cfg"
  define w1 where "w1 = after_dispatch w cfg"
  define w2 where "w2 = after_dispatch w1 (refresh_call w)"
  define w3 where "w3 = store_access w2 (Str newToken)"
  define retried where "retried = ?sent\<lparr>headers := (headers ?sent)(''Authorization'' \<mapsto> ''Bearer '' @ newToken),
                 retry := True\<rparr>"
  have first: "settle ?sent (Reply denied) = Inl \<lparr>config = ?sent, response = Some denied\<rparr>"
    using assms(2) by (simp add: settle_Reply validateStatus_def)
  have un: "is_unauthorized \<lparr>config = ?sent, response = Some denied\<rparr>"
    using assms(2) by (simp add: is_unauthorized_def)
  have refresh: "axiosInstance (Reply refreshed # r3 # rs) w1 (refresh_call w) = (Resolved refreshed, w2, r3 # rs)"
    using assms(3) by (simp add: axiosInstance_resolved settle_Reply w2_def)
  have again: "outgoing w3 (reauthorize (?sent\<lparr>retry := True\<rparr>) (Str newToken)) = retried"
    by (simp add: w3_def w2_def w1_def store_access_def setItem_def getItem_def
          request_interceptor_def truthy_def nullable_def reauthorize_def retried_def)
  have last: "axiosInstance (r3 # rs) w3 (reauthorize (?sent\<lparr>retry := True\<rparr>) (Str newToken)) =
      ((case settle retried r3 of Inr resp \<Rightarrow> Resolved resp | Inl e \<Rightarrow> Rejected e),
       record_dispatch w3 retried, rs)"
  proof (cases "settle retried r3")
    case (Inr resp)
    then show ?thesis using again by (simp add: axiosInstance_resolved)
  next
    case (Inl e)
    have "retry (reauthorize (?sent\<lparr>retry := True\<rparr>) (Str newToken))"
      by (simp add: reauthorize_def)
    with Inl show ?thesis using again by (simp add: axiosInstance_passed)
  qed
  have "axiosInstance (Reply denied # Reply refreshed # r3 # rs) w cfg =
      ((case settle retried r3 of Inr resp \<Rightarrow> Resolved resp | Inl e \<Rightarrow> Rejected e),
       record_dispatch w3 retried, rs)"
    using axiosInstance_recover [of w cfg "Reply denied", OF first un assms(1)]
      refresh assms(4,5) last
    by (simp add: w1_def w3_def)
  then show ?thesis
    by (simp add: Let_def retried_def w3_def w2_def w1_def store_access_def setItem_def
          getItem_def)
qed

theorem refresh_success_retries_once_witness:
  "\<not> retry get_history \<and>
   fst (axiosInstance [unauthorized, new_access_A2, history_payload] page_A1_R1 get_history) =
     Resolved \<lparr>status = 200, data = JObject [(''entries'', Str ''none'')]\<rparr> \<and>
   snd (snd (axiosInstance [unauthorized, new_access_A2, history_payload] page_A1_R1 get_history)) = [] \<and>
   getItem (localStorage (fst (snd (axiosInstance [unauthorized, new_access_A2, history_payload]
      page_A1_R1 get_history)))) ''accessToken'' = Some ''A2'' \<and>
   map summary (dispatched (fst (snd (axiosInstance [unauthorized, new_access_A2, history_payload]
      page_A1_R1 get_history)))) =
     [(''get'', ''/history/'', Some ''Bearer A1''),
      (''post'', ''/token/refresh/'', Some ''Bearer A1''),
      (''get'', ''/history/'', Some ''Bearer A2'')]"
  using refresh_success_retries_once [where cfg = get_history
      and denied = "\<lparr>status = 401, data = JObject [(''detail'', Str ''expired'')]\<rparr>"
      and refreshed = "\<lparr>status = 200, data = JObject [(''access'', Str ''A2'')]\<rparr>"
      and obj = "[(''access'', Str ''A2'')]" and newToken = "''A2''"
      and ?r3.0 = history_payload and rs = "[]" and w = page_A1_R1]
  by (simp add: scenario_defs Let_def settle_def validateStatus_def request_interceptor_def
        getItem_def truthy_def nullable_def refresh_request_def get_prop_def)

text \<open>
  C10. When the refresh call of a recovery resolves and its body is an object, the call
  continues as the re-dispatch of the original request, and the store at that re-dispatch
  agrees with the store at the start of the recovery on every key but \<open>accessToken\<close>; in
  particular on \<open>refreshToken\<close> and \<open>username\<close>. This holds whatever the refresh call
  did on the way, since a call that resolves has written no other key
  (\<open>axiosInstance_resolved_frame\<close>).
\<close>

theorem recovery_writes_only_access_token:
  assumes "\<not> retry cfg" and "status denied = 401"
    and "axiosInstance rs (after_dispatch w cfg) (refresh_call w) = (Resolved resp, w2, rs2)"
    and "data resp = JObject obj"
  shows "axiosInstance (Reply denied # rs) w cfg =
           axiosInstance rs2 (store_access w2 (get_prop obj ''access''))
             (reauthorize ((outgoing w cfg)\<lparr>retry := True\<rparr>) (get_prop obj ''access'')) \<and>
         (\<forall>k. k \<noteq> ''accessToken'' \<longrightarrow>
            getItem (localStorage (store_access w2 (get_prop obj ''access''))) k =
            getItem (localStorage w) k) \<and>
         getItem (localStorage (store_access w2 (get_prop obj ''access''))) ''refreshToken'' =
           getItem (localStorage w) ''refreshToken'' \<and>
         getItem (localStorage (store_access w2 (get_prop obj ''access''))) ''username'' =
           getItem (localStorage w) ''username''"
proof -
  have first: "settle (outgoing w cfg) (Reply denied) =
      Inl \<lparr>config = outgoing w cfg, response = Some denied\<rparr>"
    using assms(2) by (simp add: settle_Reply validateStatus_def)
  have un: "is_unauthorized \<lparr>config = outgoing w cfg, response = Some denied\<rparr>"
    using assms(2) by (simp add: is_unauthorized_def)
  have run: "axiosInstance (Reply denied # rs) w cfg =
           axiosInstance rs2 (store_access w2 (get_prop obj ''access''))
             (reauthorize ((outgoing w cfg)\<lparr>retry := True\<rparr>) (get_prop obj ''access''))"
    using axiosInstance_recover [of w cfg "Reply denied", OF first un assms(1)] assms(3,4) by simp
  have frame: "\<forall>k. k \<noteq> ''accessToken'' \<longrightarrow> localStorage w2 k = localStorage w k"
    using axiosInstance_resolved_frame [of rs "after_dispatch w cfg" "refresh_call w"] assms(3) by simp
  from run frame show ?thesis
    by (simp add: store_access_def setItem_def getItem_def)
qed

theorem recovery_writes_only_access_token_witness:
  "\<not> retry get_history \<and>
   axiosInstance [new_access_A2, history_payload] (after_dispatch page_A1_R1 get_history)
     (refresh_call page_A1_R1) =
     (Resolved \<lparr>status = 200, data = JObject [(''access'', Str ''A2'')]\<rparr>,
      after_dispatch (after_dispatch page_A1_R1 get_history) (refresh_call page_A1_R1),
      [history_payload]) \<and>
   getItem (localStorage (store_access
       (after_dispatch (after_dispatch page_A1_R1 get_history) (refresh_call page_A1_R1))
       (Str ''A2''))) ''refreshToken'' = Some ''R1'' \<and>
   getItem (localStorage (store_access
       (after_dispatch (after_dispatch page_A1_R1 get_history) (refresh_call page_A1_R1))
       (Str ''A2''))) ''username'' = Some ''sam'' \<and>
   getItem (localStorage (store_access
       (after_dispatch (after_dispatch page_A1_R1 get_history) (refresh_call page_A1_R1))
       (Str ''A2''))) ''accessToken'' = Some ''A2''"
proof -
  have sub: "axiosInstance [new_access_A2, history_payload] (after_dispatch page_A1_R1 get_history)
     (refresh_call page_A1_R1) =
     (Resolved \<lparr>status = 200, data = JObject [(''access'', Str ''A2'')]\<rparr>,
      after_dispatch (after_dispatch page_A1_R1 get_history) (refresh_call page_A1_R1),
      [history_payload])"
    by (simp add: new_access_A2_def axiosInstance_resolved settle_Reply validateStatus_def)
  have nr: "\<not> retry get_history" by (simp add: get_history_def)
  from recovery_writes_only_access_token [where denied = "\<lparr>status = 401, data = JNull\<rparr>"
      and obj = "[(''access'', Str ''A2'')]", OF nr _ sub]
  show ?thesis using sub nr
    by (simp add: get_prop_def page_A1_R1_def getItem_def store_access_def setItem_def)
qed

text \<open>
  C4, as the code has it. When the refresh call of a recovery is rejected, the promise of
  the original request is rejected with the original failure, both tokens are absent
  from the store, and the location is the login page. The client does not touch the
  \<open>isLoggedIn\<close> flag of the page; the flag is false once the provider is mounted again
  from the store, which the page load of the redirect does.
\<close>

theorem refresh_rejected_logs_out:
  assumes "\<not> retry cfg" and "status denied = 401"
    and "axiosInstance rs (after_dispatch w cfg) (refresh_call w) = (Rejected refreshError, w2, rs2)"
  shows "axiosInstance (Reply denied # rs) w cfg =
           (Rejected \<lparr>config = (outgoing w cfg)\<lparr>retry := True\<rparr>, response = Some denied\<rparr>,
            refresh_failed w2, rs2) \<and>
         getItem (localStorage (refresh_failed w2)) ''accessToken'' = None \<and>
         getItem (localStorage (refresh_failed w2)) ''refreshToken'' = None \<and>
         location_href (refresh_failed w2) = ''/login'' \<and>
         isLoggedIn (refresh_failed w2) = isLoggedIn w \<and>
         \<not> isLoggedIn (AuthProvider_mount (refresh_failed w2))"
proof -
  have first: "settle (outgoing w cfg) (Reply denied) =
      Inl \<lparr>config = outgoing w cfg, response = Some denied\<rparr>"
    using assms(2) by (simp add: settle_Reply validateStatus_def)
  have un: "is_unauthorized \<lparr>config = outgoing w cfg, response = Some denied\<rparr>"
    using assms(2) by (simp add: is_unauthorized_def)
  have run: "axiosInstance (Reply denied # rs) w cfg =
           (Rejected \<lparr>config = (outgoing w cfg)\<lparr>retry := True\<rparr>, response = Some denied\<rparr>,
            refresh_failed w2, rs2)"
    using axiosInstance_recover [of w cfg "Reply denied", OF first un assms(1)] assms(3) by simp
  have flag: "isLoggedIn w2 = isLoggedIn w"
    using axiosInstance_keeps_flag [of rs "after_dispatch w cfg" "refresh_call w"] assms(3) by simp
  from run flag show ?thesis
    by (simp add: refresh_failed_def removeItem_def getItem_def AuthProvider_mount_def
          AuthProvider_initial_def truthy_def)
qed

theorem refresh_rejected_logs_out_witness:
  "\<not> retry get_history \<and>
   fst (axiosInstance [server_error] (after_dispatch page_A1_R1 get_history) (refresh_call page_A1_R1)) =
     Rejected \<lparr>config = outgoing page_A1_R1 (refresh_call page_A1_R1),
               response = Some \<lparr>status = 500, data = JNull\<rparr>\<rparr> \<and>
   fst (axiosInstance [unauthorized, server_error] page_A1_R1 get_history) =
     Rejected \<lparr>config = (outgoing page_A1_R1 get_history)\<lparr>retry := True\<rparr>,
               response = Some \<lparr>status = 401, data = JObject [(''detail'', Str ''expired'')]\<rparr>\<rparr> \<and>
   getItem (localStorage (fst (snd (axiosInstance [unauthorized, server_error] page_A1_R1 get_history))))
     ''accessToken'' = None \<and>
   getItem (localStorage (fst (snd (axiosInstance [unauthorized, server_error] page_A1_R1 get_history))))
     ''refreshToken'' = None \<and>
   location_href (fst (snd (axiosInstance [unauthorized, server_error] page_A1_R1 get_history))) = ''/login'' \<and>
   \<not> isLoggedIn (AuthProvider_mount
        (fst (snd (axiosInstance [unauthorized, server_error] page_A1_R1 get_history))))"
proof -
  have sub: "axiosInstance [server_error] (after_dispatch page_A1_R1 get_history) (refresh_call page_A1_R1) =
     (Rejected \<lparr>config = outgoing page_A1_R1 (refresh_call page_A1_R1),
                response = Some \<lparr>status = 500, data = JNull\<rparr>\<rparr>,
      after_dispatch (after_dispatch page_A1_R1 get_history) (refresh_call page_A1_R1), [])"
    by (simp add: server_error_def axiosInstance_passed settle_Reply validateStatus_def is_unauthorized_def)
  have nr: "\<not> retry get_history" by (simp add: get_history_def)
  from refresh_rejected_logs_out [where denied = "\<lparr>status = 401, data = JObject [(''detail'', Str ''expired'')]\<rparr>",
      OF nr _ sub]
  show ?thesis using sub nr
    by (simp add: unauthorized_def)
qed

text \<open>
  C4, as stated, fails on the flag. The provider is mounted with tokens \<open>A1\<close> and \<open>R1\<close>,
  the request is answered 401 and the refresh call 500: when the request has been
  rejected the tokens are gone and the location is the login page, but \<open>isLoggedIn\<close> is
  still true.
\<close>

theorem refresh_failure_leaves_flag_set:
  "isLoggedIn (fst (snd (axiosInstance [unauthorized, server_error] page_A1_R1 get_history))) \<and>
   snd (snd (axiosInstance [unauthorized, server_error] page_A1_R1 get_history)) = [] \<and>
   map summary (dispatched (fst (snd (axiosInstance [unauthorized, server_error] page_A1_R1 get_history)))) =
     [(''get'', ''/history/'', Some ''Bearer A1''),
      (''post'', ''/token/refresh/'', Some ''Bearer A1'')] \<and>
   \<not> (getItem (localStorage (fst (snd (axiosInstance [unauthorized, server_error] page_A1_R1 get_history))))
         ''accessToken'' = None \<and>
       getItem (localStorage (fst (snd (axiosInstance [unauthorized, server_error] page_A1_R1 get_history))))
         ''refreshToken'' = None \<and>
       \<not> isLoggedIn (fst (snd (axiosInstance [unauthorized, server_error] page_A1_R1 get_history))) \<and>
       location_href (fst (snd (axiosInstance [unauthorized, server_error] page_A1_R1 get_history))) =
         ''/login'')"
  by (simp add: client_defs scenario_defs)

text \<open>
  C2 does not hold of the code. The refresh call is made with the same instance and its
  configuration has no retry mark, so a 401 answered to the refresh call is recovered
  like any other: the client sends a further refresh call. With \<open>n + 1\<close> replies of
  status 401 the client has sent the request and \<open>n + 1\<close> refresh calls, and waits for
  the answer to the last one.
\<close>

lemma refresh_unauthorized_chain:
  assumes "status u = 401"
  shows "\<exists>new. fst (axiosInstance (replicate n (Reply u)) w (refresh_request t)) = Stalled \<and>
           dispatched (fst (snd (axiosInstance (replicate n (Reply u)) w (refresh_request t)))) =
             dispatched w @ new \<and>
           map (\<lambda>d. url (request d)) new = replicate (Suc n) ''/token/refresh/''"
proof (induction n arbitrary: w t)
  case 0
  show ?case by simp
next
  case (Suc n)
  let ?rq = "refresh_request t"
  have first: "settle (outgoing w ?rq) (Reply u) = Inl \<lparr>config = outgoing w ?rq, response = Some u\<rparr>"
    using assms by (simp add: settle_Reply validateStatus_def)
  have un: "is_unauthorized \<lparr>config = outgoing w ?rq, response = Some u\<rparr>"
    using assms by (simp add: is_unauthorized_def)
  obtain new where sub: "fst (axiosInstance (replicate n (Reply u)) (after_dispatch w ?rq) (refresh_call w)) = Stalled"
    and tr: "dispatched (fst (snd (axiosInstance (replicate n (Reply u)) (after_dispatch w ?rq) (refresh_call w)))) =
               dispatched (after_dispatch w ?rq) @ new"
    and urls: "map (\<lambda>d. url (request d)) new = replicate (Suc n) ''/token/refresh/''"
    using Suc.IH [of "after_dispatch w ?rq" "getItem (localStorage w) ''refreshToken''"] by blast
  obtain w2 rs2 where run: "axiosInstance (replicate n (Reply u)) (after_dispatch w ?rq) (refresh_call w) =
      (Stalled, w2, rs2)"
    using sub by (cases "axiosInstance (replicate n (Reply u)) (after_dispatch w ?rq) (refresh_call w)") auto
  have "axiosInstance (replicate (Suc n) (Reply u)) w ?rq = (Stalled, w2, rs2)"
    using axiosInstance_recover [of w ?rq "Reply u", OF first un] run by simp
  moreover have "dispatched w2 = dispatched w @
      (\<lparr>stored_token = getItem (localStorage w) ''accessToken'', request = outgoing w ?rq\<rparr> # new)"
    using tr run by simp
  ultimately show ?case using urls
    by (intro exI [where x = "\<lparr>stored_token = getItem (localStorage w) ''accessToken'',
          request = outgoing w ?rq\<rparr> # new"]) simp
qed

lemma unauthorized_refresh_storm:
  assumes "status u = 401" and "\<not> retry cfg"
  shows "\<exists>new. fst (axiosInstance (replicate (Suc n) (Reply u)) w cfg) = Stalled \<and>
           dispatched (fst (snd (axiosInstance (replicate (Suc n) (Reply u)) w cfg))) = dispatched w @ new \<and>
           map (\<lambda>d. url (request d)) new = url cfg # replicate (Suc n) ''/token/refresh/''"
proof -
  have first: "settle (outgoing w cfg) (Reply u) = Inl \<lparr>config = outgoing w cfg, response = Some u\<rparr>"
    using assms by (simp add: settle_Reply validateStatus_def)
  have un: "is_unauthorized \<lparr>config = outgoing w cfg, response = Some u\<rparr>"
    using assms by (simp add: is_unauthorized_def)
  obtain new where sub: "fst (axiosInstance (replicate n (Reply u)) (after_dispatch w cfg) (refresh_call w)) = Stalled"
    and tr: "dispatched (fst (snd (axiosInstance (replicate n (Reply u)) (after_dispatch w cfg) (refresh_call w)))) =
               dispatched (after_dispatch w cfg) @ new"
    and urls: "map (\<lambda>d. url (request d)) new = replicate (Suc n) ''/token/refresh/''"
    using refresh_unauthorized_chain [OF assms(1), of n "after_dispatch w cfg"
        "getItem (localStorage w) ''refreshToken''"] by blast
  obtain w2 rs2 where run: "axiosInstance (replicate n (Reply u)) (after_dispatch w cfg) (refresh_call w) =
      (Stalled, w2, rs2)"
    using sub by (cases "axiosInstance (replicate n (Reply u)) (after_dispatch w cfg) (refresh_call w)") auto
  have "axiosInstance (replicate (Suc n) (Reply u)) w cfg = (Stalled, w2, rs2)"
    using axiosInstance_recover [of w cfg "Reply u", OF first un assms(2)] run by simp
  moreover have "dispatched w2 = dispatched w @
      (\<lparr>stored_token = getItem (localStorage w) ''accessToken'', request = outgoing w cfg\<rparr> # new)"
    using tr run by simp
  ultimately show ?thesis using urls
    by (intro exI [where x = "\<lparr>stored_token = getItem (localStorage w) ''accessToken'',
          request = outgoing w cfg\<rparr> # new"]) simp
qed

text \<open>
  C2 at the scenario: tokens \<open>A1\<close> and \<open>R1\<close>, the request for the history answered 401,
  the refresh call answered 401. The client sends a second refresh call (answered 500
  here, which ends the chain).
\<close>

theorem refresh_call_is_recovered_too:
  "map summary (dispatched (fst (snd (axiosInstance [unauthorized, unauthorized, server_error]
      page_A1_R1 get_history)))) =
     [(''get'', ''/history/'', Some ''Bearer A1''),
      (''post'', ''/token/refresh/'', Some ''Bearer A1''),
      (''post'', ''/token/refresh/'', Some ''Bearer A1'')] \<and>
   snd (snd (axiosInstance [unauthorized, unauthorized, server_error] page_A1_R1 get_history)) = []"
  by (simp add: client_defs scenario_defs)

section \<open>Session state\<close>

text \<open>
  C5, as the code has it. \<open>setIsLoggedIn\<close> writes the flag and nothing else, for false as
  for true. The tokens are cleared by the logout handler, which removes both before it
  calls \<open>setIsLoggedIn False\<close> and navigates to the login view.
\<close>

theorem setIsLoggedIn_only_sets_flag:
  "localStorage (setIsLoggedIn b w) = localStorage w \<and>
   isLoggedIn (setIsLoggedIn b w) = b \<and>
   location_href (setIsLoggedIn b w) = location_href w \<and>
   dispatched (setIsLoggedIn b w) = dispatched w \<and>
   getItem (localStorage (handleLogout w)) ''accessToken'' = None \<and>
   getItem (localStorage (handleLogout w)) ''refreshToken'' = None \<and>
   isLoggedIn (handleLogout w) = False \<and>
   location_href (handleLogout w) = ''/login''"
  by (simp add: setIsLoggedIn_def handleLogout_def navigate_def removeItem_def getItem_def Let_def)

text \<open>
  C5, as stated, fails for false: after \<open>setIsLoggedIn False\<close> on a page with tokens
  \<open>A1\<close> and \<open>R1\<close> both are still in the store.
\<close>

theorem setIsLoggedIn_false_keeps_tokens:
  "getItem (localStorage (setIsLoggedIn False page_A1_R1)) ''accessToken'' = Some ''A1'' \<and>
   getItem (localStorage (setIsLoggedIn False page_A1_R1)) ''refreshToken'' = Some ''R1'' \<and>
   \<not> (getItem (localStorage (setIsLoggedIn False page_A1_R1)) ''accessToken'' = None \<and>
       getItem (localStorage (setIsLoggedIn False page_A1_R1)) ''refreshToken'' = None)"
  by (simp add: setIsLoggedIn_def page_A1_R1_def getItem_def)

text \<open>
  C8, as the code has it. \<open>isLoggedIn\<close> is a cached flag: it tells whether the store
  holds a non-empty access token at the moment the provider is mounted and at each
  storage event; \<open>setIsLoggedIn\<close> overwrites it; a call of the client leaves it alone.
\<close>

theorem isLoggedIn_is_cached:
  "isLoggedIn (AuthProvider_mount w) =
     (\<exists>t. getItem (localStorage w) ''accessToken'' = Some t \<and> t \<noteq> []) \<and>
   isLoggedIn (handleStorageChange w) =
     (\<exists>t. getItem (localStorage w) ''accessToken'' = Some t \<and> t \<noteq> []) \<and>
   isLoggedIn (setIsLoggedIn b w) = b \<and>
   isLoggedIn (fst (snd (axiosInstance rs w cfg))) = isLoggedIn w"
  by (simp add: AuthProvider_mount_def AuthProvider_initial_def handleStorageChange_def
        setIsLoggedIn_def truthy_def axiosInstance_keeps_flag split: option.split)

text \<open>
  C8, as stated, fails once the store changes under the flag. The provider is mounted with
  tokens \<open>A1\<close> and \<open>R1\<close>; the request is answered 401 and the refresh call gets no
  response, so the client removes the tokens: \<open>isLoggedIn\<close> is true and the store holds no
  access token.
\<close>

theorem flag_outlives_token:
  "isLoggedIn (AuthProvider_mount page_A1_R1) \<and>
   isLoggedIn (fst (snd (axiosInstance [unauthorized, NetworkError] (AuthProvider_mount page_A1_R1)
      get_history))) \<and>
   getItem (localStorage (fst (snd (axiosInstance [unauthorized, NetworkError]
      (AuthProvider_mount page_A1_R1) get_history)))) ''accessToken'' = None \<and>
   isLoggedIn (fst (snd (axiosInstance [unauthorized, NetworkError] (AuthProvider_mount page_A1_R1)
      get_history))) \<noteq>
     truthy (getItem (localStorage (fst (snd (axiosInstance [unauthorized, NetworkError]
       (AuthProvider_mount page_A1_R1) get_history)))) ''accessToken'')"
  by (simp add: client_defs scenario_defs AuthProvider_mount_def AuthProvider_initial_def)

section \<open>Route guards\<close>

text \<open>
  C9. The public-only guard renders its child exactly when \<open>isLoggedIn\<close> is false and
  otherwise navigates to \<open>/dashboard\<close>; the private-only guard renders its child exactly
  when \<open>isLoggedIn\<close> is true and otherwise navigates to \<open>/login\<close>.
\<close>

theorem route_guards:
  "(PublicRoute w child = Children child) = (\<not> isLoggedIn w) \<and>
   (PublicRoute w child = Navigate ''/dashboard'') = isLoggedIn w \<and>
   (PrivateRoute w child = Children child) = isLoggedIn w \<and>
   (PrivateRoute w child = Navigate ''/login'') = (\<not> isLoggedIn w)"
  by (simp add: PublicRoute_def PrivateRoute_def)

end
